theory Spec2Isabelle
  imports Main
begin

section \<open>The bound list of RJSArray.cpp\<close>

text \<open>
  RJSArray.cpp exposes a \<^verbatim>\<open>realm::List\<close> to JavaScript as an array. The file reads
  three things of the list: whether its link view is attached
  (\<^verbatim>\<open>list->verify_attached()\<close>), whether its realm is in a write transaction
  (\<^verbatim>\<open>list->realm->is_in_transaction()\<close>), and the link view itself, an ordered
  sequence of row indices of the target table (\<^verbatim>\<open>size_t\<close>).
\<close>

type_synonym row = nat

record list_state =
  attached :: bool
  in_transaction :: bool
  link_view :: "row list"

text \<open>
  The C++ exceptions the file throws or receives, under the names of the specification.
  The handlers of \<^verbatim>\<open>ArrayGetProperty\<close> and \<^verbatim>\<open>ArraySetProperty\<close> select on the
  exception's class, so every error carries one: \<^verbatim>\<open>std::out_of_range\<close>,
  \<^verbatim>\<open>std::invalid_argument\<close>, or any other \<^verbatim>\<open>std::exception\<close>
  (the two \<^verbatim>\<open>std::runtime_error\<close>s thrown in RJSArray.cpp are of the last kind).
\<close>

datatype error =
    StaleReferenceError
  | IllegalMutationError
  | ReadOnlyPropertyError
  | ArgumentCountError
  | NotAnIndex
  | OutOfRange
  | NotANumber
  | CoercionError
  | LinkViewOutOfBounds

datatype cpp_class = std_out_of_range | std_invalid_argument | std_exception

fun class_of :: "error \<Rightarrow> cpp_class" where
  "class_of StaleReferenceError = std_exception"
| "class_of IllegalMutationError = std_exception"
| "class_of ReadOnlyPropertyError = std_exception"
| "class_of ArgumentCountError = std_invalid_argument"
| "class_of NotAnIndex = std_invalid_argument"
| "class_of OutOfRange = std_out_of_range"
| "class_of NotANumber = std_invalid_argument"
| "class_of CoercionError = std_exception"
| "class_of LinkViewOutOfBounds = std_exception"

text \<open>
  What a callback hands back to JavaScriptCore: a value; \<^verbatim>\<open>NULL\<close> (or \<^verbatim>\<open>false\<close>)
  with no exception stored, which lets the engine look the property up elsewhere; or
  \<^verbatim>\<open>NULL\<close> with the error stored in \<^verbatim>\<open>*jsException\<close>. The caller is taken
  to pass a slot for the exception (the handlers test \<^verbatim>\<open>if (jsException)\<close>).
\<close>

datatype 'a outcome = Returned 'a | Deferred | Thrown error

text \<open>
  The JavaScript values the file builds: \<^verbatim>\<open>JSValueMakeNumber\<close> of a size (kept as
  the natural number it is), \<^verbatim>\<open>JSValueMakeUndefined\<close>, \<^verbatim>\<open>RJSObjectCreate\<close> on
  the row a link points to, and \<^verbatim>\<open>JSObjectMakeArray\<close>.
\<close>

datatype jsvalue =
    JSNumber nat
  | JSUndefined
  | RJSObject row
  | JSArray "jsvalue list"

fun bindE :: "error + 'a \<Rightarrow> ('a \<Rightarrow> error + 'b) \<Rightarrow> error + 'b" where
  "bindE (Inl e) f = Inl e"
| "bindE (Inr x) f = f x"

subsection \<open>Collaborators that are not in RJSArray.cpp\<close>

text \<open>
  Modelled from the spec: \<^verbatim>\<open>List::verify_attached\<close> (list.hpp), the read half of the
  Attachment Guard: "fails with StaleReferenceError if the list is detached". The
  error is of the class that \<^verbatim>\<open>ArrayGetProperty\<close> reports: "any other failure (e.g.,
  detached list) surfaces as a recoverable error to the caller".
\<close>

definition List_verify_attached :: "list_state \<Rightarrow> error + unit" where
  "List_verify_attached list = (if attached list then Inr () else Inl StaleReferenceError)"

text \<open>
  Modelled from the spec: \<^verbatim>\<open>List::size\<close> (list.hpp), the "current element count".
\<close>

definition List_size :: "list_state \<Rightarrow> nat" where
  "List_size list = length (link_view list)"

text \<open>
  Modelled from the spec: \<^verbatim>\<open>List::get\<close> (list.hpp). "A syntactically valid but
  out-of-range index (\<ge> current length) yields OutOfRange"; otherwise "fetch the
  element at that offset".
\<close>

definition List_get :: "row list \<Rightarrow> nat \<Rightarrow> error + row" where
  "List_get lv row_ndx = (if row_ndx < length lv then Inr (lv ! row_ndx) else Inl OutOfRange)"

text \<open>
  Modelled from the spec: \<^verbatim>\<open>List::set\<close> (list.hpp). "OutOfRange as an error, since
  assignment must target an existing slot -- no implicit growth"; otherwise "replace
  the element at that offset in place".
\<close>

definition List_set :: "row list \<Rightarrow> nat \<Rightarrow> row \<Rightarrow> error + row list" where
  "List_set lv row_ndx target =
     (if row_ndx < length lv then Inr (lv[row_ndx := target]) else Inl OutOfRange)"

text \<open>
  The link view of the storage engine: \<^verbatim>\<open>add\<close> appends, \<^verbatim>\<open>insert\<close> puts a link
  before the one at the given offset (the offset may be the size), \<^verbatim>\<open>remove\<close> deletes
  the link at the offset. An offset outside these bounds is an error of its own here, so
  that a result of the entry points below shows that none of them reaches it.
\<close>

definition LinkView_add :: "row \<Rightarrow> row list \<Rightarrow> row list" where
  "LinkView_add target lv = lv @ [target]"

definition LinkView_insert :: "nat \<Rightarrow> row \<Rightarrow> row list \<Rightarrow> error + row list" where
  "LinkView_insert ndx target lv =
     (if ndx \<le> length lv then Inr (take ndx lv @ target # drop ndx lv)
      else Inl LinkViewOutOfBounds)"

definition LinkView_remove :: "nat \<Rightarrow> row list \<Rightarrow> error + row list" where
  "LinkView_remove ndx lv =
     (if ndx < length lv then Inr (take ndx lv @ drop (Suc ndx) lv)
      else Inl LinkViewOutOfBounds)"

text \<open>The decimal digits \<^verbatim>\<open>'0'\<close> to \<^verbatim>\<open>'9'\<close>, codes 48 to 57, and their values.\<close>

definition is_digit :: "char \<Rightarrow> bool" where
  "is_digit c = (48 \<le> (of_char c :: nat) \<and> (of_char c :: nat) \<le> 57)"

definition digit_value :: "char \<Rightarrow> nat" where
  "digit_value c = of_char c - 48"

text \<open>
  Modelled from the spec: \<^verbatim>\<open>RJSValidatedPositiveIndex\<close> (RJSUtil.hpp), the parsing
  half of the Index Resolver: "parse key as a non-negative base-10 integer. Parse
  failure yields NotAnIndex". The source's handlers name the failure: a
  \<^verbatim>\<open>std::invalid_argument\<close> of \<^verbatim>\<open>stol\<close>.
\<close>

definition RJSValidatedPositiveIndex :: "string \<Rightarrow> error + nat" where
  "RJSValidatedPositiveIndex indexStr =
     (if indexStr \<noteq> [] \<and> list_all is_digit indexStr
      then Inr (foldl (\<lambda>n c. 10 * n + digit_value c) 0 indexStr)
      else Inl NotAnIndex)"

text \<open>
  Modelled from the spec: \<^verbatim>\<open>RJSValidateArgumentCount\<close> (RJSUtil.hpp).
  "ArgumentCountError -- a mutation operation called with fewer arguments than
  required". The specification says nothing of a call with more arguments than
  expected; the check lets it pass here, and no result below rests on such a call.
\<close>

definition RJSValidateArgumentCount :: "nat \<Rightarrow> nat \<Rightarrow> error + unit" where
  "RJSValidateArgumentCount argumentCount expected =
     (if argumentCount < expected then Inl ArgumentCountError else Inr ())"

text \<open>
  Modelled from the spec: \<^verbatim>\<open>RJSValidateArgumentCountIsAtLeast\<close> (RJSUtil.hpp).
  "ArgumentCountError -- a mutation operation called with fewer arguments than
  required".
\<close>

definition RJSValidateArgumentCountIsAtLeast :: "nat \<Rightarrow> nat \<Rightarrow> error + unit" where
  "RJSValidateArgumentCountIsAtLeast argumentCount expected =
     (if argumentCount < expected then Inl ArgumentCountError else Inr ())"

text \<open>\<^verbatim>\<open>sprintf(str, "%zu", i)\<close>: the decimal digits of \<open>i\<close>, no leading zero.\<close>

fun sprintf_zu :: "nat \<Rightarrow> string" where
  "sprintf_zu n =
     (if n < 10 then [char_of (48 + n)]
      else sprintf_zu (n div 10) @ [char_of (48 + n mod 10)])"

declare sprintf_zu.simps [simp del]

text \<open>
  The two conversions of host values are parameters of the entry points:
  \<^verbatim>\<open>RJSAccessor::to_object_index\<close> (the coercion of a value to a row of the list's
  object type; it fails with an error of its own choice) is \<open>to_object_index\<close> below,
  and \<^verbatim>\<open>RJSValidatedValueToNumber\<close> is \<open>to_number\<close>. Neither touches the link view.
\<close>

subsection \<open>The guards\<close>

definition RJSVerifiedArray :: "list_state \<Rightarrow> error + list_state" where
  "RJSVerifiedArray object = bindE (List_verify_attached object) (\<lambda>_. Inr object)"

definition RJSVerifiedMutableArray :: "list_state \<Rightarrow> error + list_state" where
  "RJSVerifiedMutableArray object =
     bindE (RJSVerifiedArray object) (\<lambda>list.
       if \<not> in_transaction list then Inl IllegalMutationError else Inr list)"

subsection \<open>The property bridge\<close>

text \<open>
  The body of the \<^verbatim>\<open>try\<close> block of \<^verbatim>\<open>ArrayGetProperty\<close>, then its three handlers
  in the order of the source.
\<close>

definition ArrayGetProperty_try :: "list_state \<Rightarrow> string \<Rightarrow> error + jsvalue" where
  "ArrayGetProperty_try object propertyName =
     bindE (RJSVerifiedArray object) (\<lambda>list.
       let size = List_size list in
       if propertyName = ''length'' then Inr (JSNumber size)
       else bindE (RJSValidatedPositiveIndex propertyName) (\<lambda>ndx.
            bindE (List_get (link_view list) ndx) (\<lambda>r. Inr (RJSObject r))))"

definition ArrayGetProperty :: "list_state \<Rightarrow> string \<Rightarrow> jsvalue outcome" where
  "ArrayGetProperty object propertyName =
     (case ArrayGetProperty_try object propertyName of
        Inr v \<Rightarrow> Returned v
      | Inl e \<Rightarrow>
          (case class_of e of
             std_out_of_range \<Rightarrow> Returned JSUndefined
           | std_invalid_argument \<Rightarrow> Deferred
           | std_exception \<Rightarrow> Thrown e))"

text \<open>
  \<^verbatim>\<open>ArraySetProperty\<close>. The only write is the last step of the \<^verbatim>\<open>try\<close> block, so
  a failure leaves the list as it was. C++ leaves open which of the two arguments of
  \<^verbatim>\<open>list->set\<close> is evaluated first; the index is taken first here.
\<close>

definition ArraySetProperty_try ::
  "('v \<Rightarrow> error + row) \<Rightarrow> list_state \<Rightarrow> string \<Rightarrow> 'v \<Rightarrow> error + list_state" where
  "ArraySetProperty_try to_object_index object propertyName v =
     bindE (RJSVerifiedMutableArray object) (\<lambda>list.
       if propertyName = ''length'' then Inl ReadOnlyPropertyError
       else bindE (RJSValidatedPositiveIndex propertyName) (\<lambda>ndx.
            bindE (to_object_index v) (\<lambda>target.
            bindE (List_set (link_view list) ndx target) (\<lambda>lv.
              Inr (list\<lparr>link_view := lv\<rparr>)))))"

definition ArraySetProperty ::
  "('v \<Rightarrow> error + row) \<Rightarrow> list_state \<Rightarrow> string \<Rightarrow> 'v \<Rightarrow> unit outcome \<times> list_state" where
  "ArraySetProperty to_object_index object propertyName v =
     (case ArraySetProperty_try to_object_index object propertyName v of
        Inr list \<Rightarrow> (Returned (), list)
      | Inl e \<Rightarrow>
          (case class_of e of
             std_invalid_argument \<Rightarrow> (Deferred, object)
           | std_out_of_range \<Rightarrow> (Thrown e, object)
           | std_exception \<Rightarrow> (Thrown e, object)))"

text \<open>
  \<^verbatim>\<open>ArrayPropertyNames\<close> has no handler: the guard's exception leaves the function.
\<close>

definition ArrayPropertyNames :: "list_state \<Rightarrow> error + string list" where
  "ArrayPropertyNames object =
     bindE (RJSVerifiedArray object) (\<lambda>list.
       let size = List_size list in Inr (map sprintf_zu [0..<size]))"

subsection \<open>Append and prepend\<close>

text \<open>
  The loop of \<^verbatim>\<open>ArrayPush\<close> over \<^verbatim>\<open>arguments[i]\<close>: a failing coercion leaves the
  loop with the links added so far.
\<close>

fun ArrayPush_loop ::
  "('v \<Rightarrow> error + row) \<Rightarrow> 'v list \<Rightarrow> row list \<Rightarrow> error option \<times> row list" where
  "ArrayPush_loop to_object_index [] lv = (None, lv)"
| "ArrayPush_loop to_object_index (a # arguments) lv =
     (case to_object_index a of
        Inl e \<Rightarrow> (Some e, lv)
      | Inr target \<Rightarrow> ArrayPush_loop to_object_index arguments (LinkView_add target lv))"

definition ArrayPush ::
  "('v \<Rightarrow> error + row) \<Rightarrow> list_state \<Rightarrow> 'v list \<Rightarrow> jsvalue outcome \<times> list_state" where
  "ArrayPush to_object_index thisObject arguments =
     (case RJSVerifiedMutableArray thisObject of
        Inl e \<Rightarrow> (Thrown e, thisObject)
      | Inr array \<Rightarrow>
          (case RJSValidateArgumentCountIsAtLeast (length arguments) 1 of
             Inl e \<Rightarrow> (Thrown e, array)
           | Inr _ \<Rightarrow>
               (case ArrayPush_loop to_object_index arguments (link_view array) of
                  (Some e, lv) \<Rightarrow> (Thrown e, array\<lparr>link_view := lv\<rparr>)
                | (None, lv) \<Rightarrow>
                    (Returned (JSNumber (length lv)), array\<lparr>link_view := lv\<rparr>))))"

text \<open>The loop of \<^verbatim>\<open>ArrayUnshift\<close>: argument \<open>i\<close> is inserted at offset \<open>i\<close>.\<close>

fun ArrayUnshift_loop ::
  "('v \<Rightarrow> error + row) \<Rightarrow> nat \<Rightarrow> 'v list \<Rightarrow> row list \<Rightarrow> error option \<times> row list" where
  "ArrayUnshift_loop to_object_index i [] lv = (None, lv)"
| "ArrayUnshift_loop to_object_index i (a # arguments) lv =
     (case to_object_index a of
        Inl e \<Rightarrow> (Some e, lv)
      | Inr target \<Rightarrow>
          (case LinkView_insert i target lv of
             Inl e \<Rightarrow> (Some e, lv)
           | Inr lv' \<Rightarrow> ArrayUnshift_loop to_object_index (Suc i) arguments lv'))"

definition ArrayUnshift ::
  "('v \<Rightarrow> error + row) \<Rightarrow> list_state \<Rightarrow> 'v list \<Rightarrow> jsvalue outcome \<times> list_state" where
  "ArrayUnshift to_object_index thisObject arguments =
     (case RJSVerifiedMutableArray thisObject of
        Inl e \<Rightarrow> (Thrown e, thisObject)
      | Inr array \<Rightarrow>
          (case RJSValidateArgumentCountIsAtLeast (length arguments) 1 of
             Inl e \<Rightarrow> (Thrown e, array)
           | Inr _ \<Rightarrow>
               (case ArrayUnshift_loop to_object_index 0 arguments (link_view array) of
                  (Some e, lv) \<Rightarrow> (Thrown e, array\<lparr>link_view := lv\<rparr>)
                | (None, lv) \<Rightarrow>
                    (Returned (JSNumber (length lv)), array\<lparr>link_view := lv\<rparr>))))"

subsection \<open>Remove last and remove first\<close>

definition ArrayPop :: "list_state \<Rightarrow> 'v list \<Rightarrow> jsvalue outcome \<times> list_state" where
  "ArrayPop thisObject arguments =
     (case RJSVerifiedMutableArray thisObject of
        Inl e \<Rightarrow> (Thrown e, thisObject)
      | Inr list \<Rightarrow>
          (case RJSValidateArgumentCount (length arguments) 0 of
             Inl e \<Rightarrow> (Thrown e, list)
           | Inr _ \<Rightarrow>
               (let size = List_size list in
                if size = 0 then (Returned JSUndefined, list)
                else
                  (let index = size - 1 in
                   case List_get (link_view list) index of
                     Inl e \<Rightarrow> (Thrown e, list)
                   | Inr r \<Rightarrow>
                       (case LinkView_remove index (link_view list) of
                          Inl e \<Rightarrow> (Thrown e, list)
                        | Inr lv \<Rightarrow> (Returned (RJSObject r), list\<lparr>link_view := lv\<rparr>))))))"

definition ArrayShift :: "list_state \<Rightarrow> 'v list \<Rightarrow> jsvalue outcome \<times> list_state" where
  "ArrayShift thisObject arguments =
     (case RJSVerifiedMutableArray thisObject of
        Inl e \<Rightarrow> (Thrown e, thisObject)
      | Inr list \<Rightarrow>
          (case RJSValidateArgumentCount (length arguments) 0 of
             Inl e \<Rightarrow> (Thrown e, list)
           | Inr _ \<Rightarrow>
               (if List_size list = 0 then (Returned JSUndefined, list)
                else
                  (case List_get (link_view list) 0 of
                     Inl e \<Rightarrow> (Thrown e, list)
                   | Inr r \<Rightarrow>
                       (case LinkView_remove 0 (link_view list) of
                          Inl e \<Rightarrow> (Thrown e, list)
                        | Inr lv \<Rightarrow> (Returned (RJSObject r), list\<lparr>link_view := lv\<rparr>))))))"

subsection \<open>Splice\<close>

text \<open>
  \<^verbatim>\<open>ArraySplice\<close> mixes \<^verbatim>\<open>long\<close> and \<^verbatim>\<open>size_t\<close>. Both are 64 bits wide: a value
  becomes a \<^verbatim>\<open>long\<close> by keeping its low 64 bits as a two's complement number, and a
  \<^verbatim>\<open>size_t\<close> by keeping them as an unsigned one. A sum or difference of a
  \<^verbatim>\<open>size_t\<close> and a \<^verbatim>\<open>long\<close> is computed as \<^verbatim>\<open>size_t\<close>.
\<close>

definition to_long :: "int \<Rightarrow> int" where
  "to_long k = signed_take_bit 63 k"

definition to_size_t :: "int \<Rightarrow> nat" where
  "to_size_t k = nat (take_bit 64 k)"

text \<open>
  The first loop: \<^verbatim>\<open>remove\<close> times, wrap the row at \<^verbatim>\<open>index\<close>, store it in the next
  slot of \<^verbatim>\<open>removedObjects\<close>, and remove the link at \<^verbatim>\<open>index\<close>.
\<close>

fun ArraySplice_remove_loop ::
  "nat \<Rightarrow> nat \<Rightarrow> jsvalue list \<Rightarrow> row list \<Rightarrow> (error + jsvalue list) \<times> row list" where
  "ArraySplice_remove_loop index 0 removedObjects lv = (Inr removedObjects, lv)"
| "ArraySplice_remove_loop index (Suc n) removedObjects lv =
     (case List_get lv index of
        Inl e \<Rightarrow> (Inl e, lv)
      | Inr r \<Rightarrow>
          (case LinkView_remove index lv of
             Inl e \<Rightarrow> (Inl e, lv)
           | Inr lv' \<Rightarrow>
               ArraySplice_remove_loop index n (removedObjects @ [RJSObject r]) lv'))"

text \<open>
  The second loop, from \<^verbatim>\<open>i = 2\<close>: argument \<open>i\<close> is inserted at
  \<^verbatim>\<open>index + i - 2\<close>.
\<close>

fun ArraySplice_insert_loop ::
  "('v \<Rightarrow> error + row) \<Rightarrow> int \<Rightarrow> nat \<Rightarrow> 'v list \<Rightarrow> row list \<Rightarrow> error option \<times> row list" where
  "ArraySplice_insert_loop to_object_index index i [] lv = (None, lv)"
| "ArraySplice_insert_loop to_object_index index i (a # arguments) lv =
     (case to_object_index a of
        Inl e \<Rightarrow> (Some e, lv)
      | Inr target \<Rightarrow>
          (case LinkView_insert (to_size_t (index + int i - 2)) target lv of
             Inl e \<Rightarrow> (Some e, lv)
           | Inr lv' \<Rightarrow> ArraySplice_insert_loop to_object_index index (Suc i) arguments lv'))"

text \<open>
  \<open>to_number\<close> gives the number of \<^verbatim>\<open>RJSValidatedValueToNumber\<close>, an integer.
  \<^verbatim>\<open>std::min<long>\<close> and \<^verbatim>\<open>std::max<long>\<close> take both their arguments as
  \<^verbatim>\<open>long\<close>, so the number and the size are converted on the way in.
  \<open>ArraySplice_index\<close> is the value of \<^verbatim>\<open>index\<close> after the first two statements
  on it, \<open>ArraySplice_remove\<close> the value of \<^verbatim>\<open>remove\<close> after its two; \<open>sz\<close> is
  the \<^verbatim>\<open>size\<close> of the source.
\<close>

definition ArraySplice_index :: "nat \<Rightarrow> int \<Rightarrow> int" where
  "ArraySplice_index sz start =
     (let index = min (to_long start) (to_long (int sz)) in
      if index < 0 then max (to_long (int (to_size_t (int sz + index)))) (to_long 0)
      else index)"

definition ArraySplice_remove :: "nat \<Rightarrow> int \<Rightarrow> int \<Rightarrow> int" where
  "ArraySplice_remove sz index deleteCount =
     (let remove = max (to_long deleteCount) (to_long 0) in
      min remove (to_long (int (to_size_t (int sz - index)))))"

definition ArraySplice ::
  "('v \<Rightarrow> error + int) \<Rightarrow> ('v \<Rightarrow> error + row) \<Rightarrow> list_state \<Rightarrow> 'v list
     \<Rightarrow> jsvalue outcome \<times> list_state" where
  "ArraySplice to_number to_object_index thisObject arguments =
     (case RJSVerifiedMutableArray thisObject of
        Inl e \<Rightarrow> (Thrown e, thisObject)
      | Inr list \<Rightarrow>
          (let size = List_size list in
           case RJSValidateArgumentCountIsAtLeast (length arguments) 2 of
             Inl e \<Rightarrow> (Thrown e, list)
           | Inr _ \<Rightarrow>
               (case to_number (arguments ! 0) of
                  Inl e \<Rightarrow> (Thrown e, list)
                | Inr start \<Rightarrow>
                    (let index = ArraySplice_index size start in
                     case to_number (arguments ! 1) of
                       Inl e \<Rightarrow> (Thrown e, list)
                     | Inr deleteCount \<Rightarrow>
                         (let remove = ArraySplice_remove size index deleteCount in
                          case ArraySplice_remove_loop (to_size_t index) (to_size_t remove) []
                                 (link_view list) of
                            (Inl e, lv) \<Rightarrow> (Thrown e, list\<lparr>link_view := lv\<rparr>)
                          | (Inr removedObjects, lv) \<Rightarrow>
                              (case ArraySplice_insert_loop to_object_index index 2
                                      (drop 2 arguments) lv of
                                 (Some e, lv') \<Rightarrow> (Thrown e, list\<lparr>link_view := lv'\<rparr>)
                               | (None, lv') \<Rightarrow>
                                   (Returned (JSArray removedObjects),
                                    list\<lparr>link_view := lv'\<rparr>)))))))"

subsection \<open>Host values for the examples\<close>

text \<open>
  A small host: numbers, objects that coerce to a row of the list's type, and values
  that neither conversion accepts.
\<close>

datatype hostvalue = HostNumber int | HostObject row | HostOther

fun host_to_number :: "hostvalue \<Rightarrow> error + int" where
  "host_to_number (HostNumber n) = Inr n"
| "host_to_number (HostObject r) = Inl NotANumber"
| "host_to_number HostOther = Inl NotANumber"

fun host_to_object_index :: "hostvalue \<Rightarrow> error + row" where
  "host_to_object_index (HostObject r) = Inr r"
| "host_to_object_index (HostNumber n) = Inl CoercionError"
| "host_to_object_index HostOther = Inl CoercionError"

subsection \<open>The clamping of Splice as the specification words it\<close>



section \<open>Lemmas\<close>

subsection \<open>Conversions\<close>






subsection \<open>The guards\<close>

lemma guard_read_ok: "attached s \<Longrightarrow> RJSVerifiedArray s = Inr s"
  by (simp add: RJSVerifiedArray_def List_verify_attached_def)

lemma guard_read_detached: "\<not> attached s \<Longrightarrow> RJSVerifiedArray s = Inl StaleReferenceError"
  by (simp add: RJSVerifiedArray_def List_verify_attached_def)

lemma guard_write_ok:
  "attached s \<Longrightarrow> in_transaction s \<Longrightarrow> RJSVerifiedMutableArray s = Inr s"
  by (simp add: RJSVerifiedMutableArray_def guard_read_ok)

lemma guard_write_detached:
  "\<not> attached s \<Longrightarrow> RJSVerifiedMutableArray s = Inl StaleReferenceError"
  by (simp add: RJSVerifiedMutableArray_def guard_read_detached)

lemma guard_write_no_transaction:
  "attached s \<Longrightarrow> \<not> in_transaction s \<Longrightarrow>
   RJSVerifiedMutableArray s = Inl IllegalMutationError"
  by (simp add: RJSVerifiedMutableArray_def guard_read_ok)

subsection \<open>The loops\<close>

lemma ArrayPush_loop_all:
  "map c args = map Inr rows \<Longrightarrow> ArrayPush_loop c args lv = (None, lv @ rows)"
proof (induction args arbitrary: lv rows)
  case Nil
  then show ?case by simp
next
  case (Cons a args)
  then obtain r rs where rows: "rows = r # rs" and ca: "c a = Inr r"
    and rest: "map c args = map Inr rs"
    by (cases rows) auto
  show ?case using Cons.IH [OF rest] by (simp add: rows ca LinkView_add_def)
qed

lemma ArrayPush_loop_fails:
  "map c pre = map Inr rows \<Longrightarrow> c a = Inl e \<Longrightarrow>
   ArrayPush_loop c (pre @ a # post) lv = (Some e, lv @ rows)"
proof (induction pre arbitrary: lv rows)
  case Nil
  then show ?case by simp
next
  case (Cons p pre)
  then obtain r rs where rows: "rows = r # rs" and cp: "c p = Inr r"
    and rest: "map c pre = map Inr rs"
    by (cases rows) auto
  show ?case using Cons.IH [OF rest Cons.prems(2)] by (simp add: rows cp LinkView_add_def)
qed

lemma insert_step:
  "i \<le> length lv \<Longrightarrow>
   take (Suc i) (take i lv @ r # drop i lv) @ rs @ drop (Suc i) (take i lv @ r # drop i lv)
   = take i lv @ (r # rs) @ drop i lv"
  by (simp add: min_absorb2)

lemma ArrayUnshift_loop_all:
  "i \<le> length lv \<Longrightarrow> map c args = map Inr rows \<Longrightarrow>
   ArrayUnshift_loop c i args lv = (None, take i lv @ rows @ drop i lv)"
proof (induction args arbitrary: i lv rows)
  case Nil
  then show ?case by simp
next
  case (Cons a args)
  then obtain r rs where rows: "rows = r # rs" and ca: "c a = Inr r"
    and rest: "map c args = map Inr rs"
    by (cases rows) auto
  let ?lv = "take i lv @ r # drop i lv"
  have len: "Suc i \<le> length ?lv" using Cons.prems(1) by simp
  show ?case
    using Cons.IH [OF len rest] insert_step [OF Cons.prems(1), of r rs]
    by (simp add: rows ca LinkView_insert_def Cons.prems(1))
qed

lemma ArrayUnshift_loop_fails:
  "i \<le> length lv \<Longrightarrow> map c pre = map Inr rows \<Longrightarrow> c a = Inl e \<Longrightarrow>
   ArrayUnshift_loop c i (pre @ a # post) lv = (Some e, take i lv @ rows @ drop i lv)"
proof (induction pre arbitrary: i lv rows)
  case Nil
  then show ?case by simp
next
  case (Cons p pre)
  then obtain r rs where rows: "rows = r # rs" and cp: "c p = Inr r"
    and rest: "map c pre = map Inr rs"
    by (cases rows) auto
  let ?lv = "take i lv @ r # drop i lv"
  have len: "Suc i \<le> length ?lv" using Cons.prems(1) by simp
  show ?case
    using Cons.IH [OF len rest Cons.prems(3)] insert_step [OF Cons.prems(1), of r rs]
    by (simp add: rows cp LinkView_insert_def Cons.prems(1))
qed



subsection \<open>The clamping of the source is the clamping of the specification\<close>





subsection \<open>Splice up to its second loop\<close>


subsection \<open>Decimal keys\<close>

lemma digit_char:
  "d < 10 \<Longrightarrow> is_digit (char_of (48 + d)) \<and> digit_value (char_of (48 + d)) = d"
  by (simp add: is_digit_def digit_value_def)

lemma sprintf_zu_digits: "sprintf_zu n \<noteq> [] \<and> list_all is_digit (sprintf_zu n)"
proof (induction n rule: sprintf_zu.induct)
  case (1 n)
  show ?case
  proof (cases "n < 10")
    case True
    then show ?thesis by (simp add: sprintf_zu.simps [of n] digit_char)
  next
    case False
    have "n mod 10 < 10" by simp
    then have "is_digit (char_of (48 + n mod 10))" by (simp only: digit_char)
    then show ?thesis using False "1.IH" by (simp add: sprintf_zu.simps [of n])
  qed
qed

lemma sprintf_zu_parse: "foldl (\<lambda>n c. 10 * n + digit_value c) 0 (sprintf_zu n) = n"
proof (induction n rule: sprintf_zu.induct)
  case (1 n)
  show ?case
  proof (cases "n < 10")
    case True
    then show ?thesis by (simp add: sprintf_zu.simps [of n] digit_char)
  next
    case False
    have "n mod 10 < 10" by simp
    then have "digit_value (char_of (48 + n mod 10)) = n mod 10" by (simp only: digit_char)
    then show ?thesis using False "1.IH" by (simp add: sprintf_zu.simps [of n])
  qed
qed

lemma RJSValidatedPositiveIndex_sprintf_zu: "RJSValidatedPositiveIndex (sprintf_zu n) = Inr n"
  by (simp add: RJSValidatedPositiveIndex_def sprintf_zu_digits sprintf_zu_parse)

lemma sprintf_zu_not_length: "sprintf_zu n \<noteq> ''length''"
proof
  assume "sprintf_zu n = ''length''"
  then have "list_all is_digit ''length''" using sprintf_zu_digits [of n] by simp
  then show False by (simp add: is_digit_def)
qed

subsection \<open>Remove last and remove first, case by case\<close>

lemma map_Inr_length: "map c args = map Inr rows \<Longrightarrow> length rows = length args"
  by (metis length_map)

lemma ArrayPop_nonempty:
  assumes "attached s" "in_transaction s" "link_view s \<noteq> []"
  shows "ArrayPop s ([] :: 'v list) =
     (Returned (RJSObject (last (link_view s))), s\<lparr>link_view := butlast (link_view s)\<rparr>)"
proof -
  obtain ys y where xs: "link_view s = ys @ [y]"
    using assms(3) by (metis append_butlast_last_id)
  show ?thesis
    using assms(1,2)
    by (simp add: ArrayPop_def guard_write_ok RJSValidateArgumentCount_def List_size_def
        List_get_def LinkView_remove_def xs Let_def)
qed

lemma ArrayShift_nonempty:
  assumes "attached s" "in_transaction s" "link_view s \<noteq> []"
  shows "ArrayShift s ([] :: 'v list) =
     (Returned (RJSObject (hd (link_view s))), s\<lparr>link_view := tl (link_view s)\<rparr>)"
proof -
  obtain y ys where xs: "link_view s = y # ys"
    using assms(3) by (cases "link_view s") auto
  show ?thesis
    using assms(1,2)
    by (simp add: ArrayShift_def guard_write_ok RJSValidateArgumentCount_def List_size_def
        List_get_def LinkView_remove_def xs)
qed

lemma ArrayPop_empty:
  assumes "attached s" "in_transaction s" "link_view s = []"
  shows "ArrayPop s ([] :: 'v list) = (Returned JSUndefined, s)"
  using assms
  by (simp add: ArrayPop_def guard_write_ok RJSValidateArgumentCount_def List_size_def)

lemma ArrayShift_empty:
  assumes "attached s" "in_transaction s" "link_view s = []"
  shows "ArrayShift s ([] :: 'v list) = (Returned JSUndefined, s)"
  using assms
  by (simp add: ArrayShift_def guard_write_ok RJSValidateArgumentCount_def List_size_def)

section \<open>The claims\<close>

text \<open>
  C1, as amended. \<^verbatim>\<open>Set("length", x)\<close> fails for every value \<open>x\<close> and leaves the list
  as it was. The error is \<open>ReadOnlyPropertyError\<close> when the list is attached and a write
  transaction is open; the write guard runs first, so the error is
  \<open>IllegalMutationError\<close> when the list is attached and no write transaction is open,
  and \<open>StaleReferenceError\<close> when the list is detached.
\<close>

theorem ArraySetProperty_length_fails:
  "ArraySetProperty to_object_index s ''length'' x =
     (Thrown (if \<not> attached s then StaleReferenceError
              else if \<not> in_transaction s then IllegalMutationError
              else ReadOnlyPropertyError), s)"
  by (simp add: ArraySetProperty_def ArraySetProperty_try_def guard_write_ok
      guard_write_detached guard_write_no_transaction)

theorem ArraySetProperty_length_fails_witness:
  "ArraySetProperty host_to_object_index
     \<lparr>attached = True, in_transaction = True, link_view = [0, 1]\<rparr> ''length'' (HostObject 0)
   = (Thrown ReadOnlyPropertyError,
      \<lparr>attached = True, in_transaction = True, link_view = [0, 1]\<rparr>)"
  using ArraySetProperty_length_fails [of host_to_object_index
      "\<lparr>attached = True, in_transaction = True, link_view = [0, 1]\<rparr>" "HostObject 0"]
  by simp

text \<open>
  C1, as stated, fails: on an attached list with no write transaction open,
  \<^verbatim>\<open>Set("length", x)\<close> fails with \<open>IllegalMutationError\<close>, not with
  \<open>ReadOnlyPropertyError\<close>.
\<close>

theorem ArraySetProperty_length_no_transaction_counterexample:
  "ArraySetProperty host_to_object_index
     \<lparr>attached = True, in_transaction = False, link_view = [0, 1]\<rparr> ''length'' (HostObject 0)
   = (Thrown IllegalMutationError,
      \<lparr>attached = True, in_transaction = False, link_view = [0, 1]\<rparr>)
   \<and> fst (ArraySetProperty host_to_object_index
        \<lparr>attached = True, in_transaction = False, link_view = [0, 1]\<rparr> ''length''
        (HostObject 0))
     \<noteq> Thrown ReadOnlyPropertyError"
  by (simp add: ArraySetProperty_def ArraySetProperty_try_def RJSVerifiedMutableArray_def
      RJSVerifiedArray_def List_verify_attached_def)




text \<open>
  C3. On an attached list with no write transaction open, every mutation (Set on any key,
  and so on an index, Append, RemoveLast, RemoveFirst, Prepend, Splice), whatever its
  arguments, fails with \<open>IllegalMutationError\<close> and leaves the list as it was.
\<close>

theorem mutation_outside_transaction_rejected:
  assumes "attached s" "\<not> in_transaction s"
  shows "ArraySetProperty to_object_index s key x = (Thrown IllegalMutationError, s)
       \<and> ArrayPush to_object_index s arguments = (Thrown IllegalMutationError, s)
       \<and> ArrayPop s arguments = (Thrown IllegalMutationError, s)
       \<and> ArrayShift s arguments = (Thrown IllegalMutationError, s)
       \<and> ArrayUnshift to_object_index s arguments = (Thrown IllegalMutationError, s)
       \<and> ArraySplice to_number to_object_index s arguments = (Thrown IllegalMutationError, s)"
  using assms
  by (simp add: ArraySetProperty_def ArraySetProperty_try_def ArrayPush_def ArrayPop_def
      ArrayShift_def ArrayUnshift_def ArraySplice_def guard_write_no_transaction)

theorem mutation_outside_transaction_rejected_witness:
  "ArraySetProperty host_to_object_index
     \<lparr>attached = True, in_transaction = False, link_view = [4, 5]\<rparr> ''0'' (HostObject 7)
     = (Thrown IllegalMutationError,
        \<lparr>attached = True, in_transaction = False, link_view = [4, 5]\<rparr>)
   \<and> ArrayPush host_to_object_index
     \<lparr>attached = True, in_transaction = False, link_view = [4, 5]\<rparr> [HostObject 7]
     = (Thrown IllegalMutationError,
        \<lparr>attached = True, in_transaction = False, link_view = [4, 5]\<rparr>)
   \<and> ArrayPop \<lparr>attached = True, in_transaction = False, link_view = [4, 5]\<rparr> [HostObject 7]
     = (Thrown IllegalMutationError,
        \<lparr>attached = True, in_transaction = False, link_view = [4, 5]\<rparr>)
   \<and> ArrayShift \<lparr>attached = True, in_transaction = False, link_view = [4, 5]\<rparr> [HostObject 7]
     = (Thrown IllegalMutationError,
        \<lparr>attached = True, in_transaction = False, link_view = [4, 5]\<rparr>)
   \<and> ArrayUnshift host_to_object_index
     \<lparr>attached = True, in_transaction = False, link_view = [4, 5]\<rparr> [HostObject 7]
     = (Thrown IllegalMutationError,
        \<lparr>attached = True, in_transaction = False, link_view = [4, 5]\<rparr>)
   \<and> ArraySplice host_to_number host_to_object_index
     \<lparr>attached = True, in_transaction = False, link_view = [4, 5]\<rparr> [HostObject 7]
     = (Thrown IllegalMutationError,
        \<lparr>attached = True, in_transaction = False, link_view = [4, 5]\<rparr>)"
  using mutation_outside_transaction_rejected
    [of "\<lparr>attached = True, in_transaction = False, link_view = [4, 5]\<rparr>"
      host_to_object_index "''0''" "HostObject 7" "[HostObject 7]" host_to_number]
  by simp

text \<open>
  C4. On a detached list every operation of the interface (Get, Set, Enumerate, Append,
  RemoveLast, RemoveFirst, Prepend, Splice), whatever its key or arguments and whatever
  the transaction state, fails with \<open>StaleReferenceError\<close>; the operations that can
  write leave the list as it was.
\<close>

theorem detached_list_rejects_every_operation:
  assumes "\<not> attached s"
  shows "ArrayGetProperty s key = Thrown StaleReferenceError
       \<and> ArraySetProperty to_object_index s key x = (Thrown StaleReferenceError, s)
       \<and> ArrayPropertyNames s = Inl StaleReferenceError
       \<and> ArrayPush to_object_index s arguments = (Thrown StaleReferenceError, s)
       \<and> ArrayPop s arguments = (Thrown StaleReferenceError, s)
       \<and> ArrayShift s arguments = (Thrown StaleReferenceError, s)
       \<and> ArrayUnshift to_object_index s arguments = (Thrown StaleReferenceError, s)
       \<and> ArraySplice to_number to_object_index s arguments = (Thrown StaleReferenceError, s)"
  using assms
  by (simp add: ArrayGetProperty_def ArrayGetProperty_try_def ArrayPropertyNames_def
      ArraySetProperty_def ArraySetProperty_try_def ArrayPush_def ArrayPop_def
      ArrayShift_def ArrayUnshift_def ArraySplice_def guard_write_detached guard_read_detached)

theorem detached_list_rejects_every_operation_witness:
  "ArrayGetProperty \<lparr>attached = False, in_transaction = True, link_view = [4, 5]\<rparr> ''0''
     = Thrown StaleReferenceError
   \<and> ArraySetProperty host_to_object_index
     \<lparr>attached = False, in_transaction = True, link_view = [4, 5]\<rparr> ''0'' (HostObject 7)
     = (Thrown StaleReferenceError,
        \<lparr>attached = False, in_transaction = True, link_view = [4, 5]\<rparr>)
   \<and> ArrayPropertyNames \<lparr>attached = False, in_transaction = True, link_view = [4, 5]\<rparr>
     = Inl StaleReferenceError
   \<and> ArrayPush host_to_object_index
     \<lparr>attached = False, in_transaction = True, link_view = [4, 5]\<rparr> [HostObject 7]
     = (Thrown StaleReferenceError,
        \<lparr>attached = False, in_transaction = True, link_view = [4, 5]\<rparr>)
   \<and> ArrayPop \<lparr>attached = False, in_transaction = True, link_view = [4, 5]\<rparr> [HostObject 7]
     = (Thrown StaleReferenceError,
        \<lparr>attached = False, in_transaction = True, link_view = [4, 5]\<rparr>)
   \<and> ArrayShift \<lparr>attached = False, in_transaction = True, link_view = [4, 5]\<rparr> [HostObject 7]
     = (Thrown StaleReferenceError,
        \<lparr>attached = False, in_transaction = True, link_view = [4, 5]\<rparr>)
   \<and> ArrayUnshift host_to_object_index
     \<lparr>attached = False, in_transaction = True, link_view = [4, 5]\<rparr> [HostObject 7]
     = (Thrown StaleReferenceError,
        \<lparr>attached = False, in_transaction = True, link_view = [4, 5]\<rparr>)
   \<and> ArraySplice host_to_number host_to_object_index
     \<lparr>attached = False, in_transaction = True, link_view = [4, 5]\<rparr> [HostObject 7]
     = (Thrown StaleReferenceError,
        \<lparr>attached = False, in_transaction = True, link_view = [4, 5]\<rparr>)"
  using detached_list_rejects_every_operation
    [of "\<lparr>attached = False, in_transaction = True, link_view = [4, 5]\<rparr>"
      "''0''" host_to_object_index "HostObject 7" "[HostObject 7]" host_to_number]
  by simp

text \<open>
  C5. On an attached list of length \<open>L\<close>, \<^verbatim>\<open>Get\<close> on the decimal key of \<open>i\<close> returns the
  wrapped element at offset \<open>i\<close> when \<open>i < L\<close> and \<^verbatim>\<open>undefined\<close>, not an error, when
  \<open>L \<le> i\<close>; \<^verbatim>\<open>Get("length")\<close> returns \<open>L\<close>.
\<close>

theorem ArrayGetProperty_index_and_length:
  assumes "attached s"
  shows "ArrayGetProperty s (sprintf_zu i) =
           Returned (if i < length (link_view s) then RJSObject (link_view s ! i)
                     else JSUndefined)
       \<and> ArrayGetProperty s ''length'' = Returned (JSNumber (length (link_view s)))"
  using assms
  by (simp add: ArrayGetProperty_def ArrayGetProperty_try_def guard_read_ok List_size_def
      sprintf_zu_not_length RJSValidatedPositiveIndex_sprintf_zu List_get_def)

theorem ArrayGetProperty_index_and_length_witness:
  "ArrayGetProperty \<lparr>attached = True, in_transaction = False, link_view = [5, 6, 7]\<rparr> ''2''
     = Returned (RJSObject 7)
   \<and> ArrayGetProperty \<lparr>attached = True, in_transaction = False, link_view = [5, 6, 7]\<rparr> ''3''
     = Returned JSUndefined
   \<and> ArrayGetProperty \<lparr>attached = True, in_transaction = False, link_view = [5, 6, 7]\<rparr>
       ''length''
     = Returned (JSNumber 3)"
proof -
  have k2: "sprintf_zu 2 = ''2''" by code_simp
  have k3: "sprintf_zu 3 = ''3''" by code_simp
  show ?thesis
    using ArrayGetProperty_index_and_length
        [of "\<lparr>attached = True, in_transaction = False, link_view = [5, 6, 7]\<rparr>" 2]
      ArrayGetProperty_index_and_length
        [of "\<lparr>attached = True, in_transaction = False, link_view = [5, 6, 7]\<rparr>" 3]
    by (simp add: k2 k3)
qed

text \<open>
  C6. On an attached list of length \<open>L\<close> in a write transaction, \<^verbatim>\<open>Append\<close> with
  \<open>n \<ge> 1\<close> arguments that all coerce leaves the old elements in place, followed by the
  coerced values in argument order, and returns \<open>L + n\<close>; with no argument it fails with
  \<open>ArgumentCountError\<close> and changes nothing.
\<close>

theorem ArrayPush_appends_in_order:
  assumes "attached s" "in_transaction s"
    and "map to_object_index arguments = map Inr rows"
  shows "ArrayPush to_object_index s arguments =
     (if arguments = [] then (Thrown ArgumentCountError, s)
      else (Returned (JSNumber (length (link_view s) + length arguments)),
            s\<lparr>link_view := link_view s @ rows\<rparr>))"
proof (cases "arguments = []")
  case True
  then show ?thesis
    using assms(1,2)
    by (simp add: ArrayPush_def guard_write_ok RJSValidateArgumentCountIsAtLeast_def)
next
  case False
  then have "\<not> length arguments < 1" by simp
  then show ?thesis
    using assms(1,2) False map_Inr_length [OF assms(3)]
    by (simp add: ArrayPush_def guard_write_ok RJSValidateArgumentCountIsAtLeast_def
        ArrayPush_loop_all [OF assms(3)])
qed

theorem ArrayPush_appends_in_order_witness:
  "ArrayPush host_to_object_index
     \<lparr>attached = True, in_transaction = True, link_view = [4, 5]\<rparr>
     [HostObject 7, HostObject 8, HostObject 9]
   = (Returned (JSNumber 5),
      \<lparr>attached = True, in_transaction = True, link_view = [4, 5, 7, 8, 9]\<rparr>)
   \<and> ArrayPush host_to_object_index
     \<lparr>attached = True, in_transaction = True, link_view = [4, 5]\<rparr> []
   = (Thrown ArgumentCountError,
      \<lparr>attached = True, in_transaction = True, link_view = [4, 5]\<rparr>)"
  using ArrayPush_appends_in_order
      [of "\<lparr>attached = True, in_transaction = True, link_view = [4, 5]\<rparr>"
        host_to_object_index "[HostObject 7, HostObject 8, HostObject 9]" "[7, 8, 9]"]
    ArrayPush_appends_in_order
      [of "\<lparr>attached = True, in_transaction = True, link_view = [4, 5]\<rparr>"
        host_to_object_index "[]" "[]"]
  by simp

text \<open>
  C7. On an attached list in a write transaction, \<^verbatim>\<open>Prepend\<close> with \<open>n \<ge> 1\<close> arguments
  that all coerce leaves the coerced values at offsets \<open>0, \<dots>, n - 1\<close> in argument
  order, followed by the old elements in their order, and returns the new length; with
  no argument it fails with \<open>ArgumentCountError\<close> and changes nothing.
\<close>

theorem ArrayUnshift_prepends_in_order:
  assumes "attached s" "in_transaction s"
    and "map to_object_index arguments = map Inr rows"
  shows "ArrayUnshift to_object_index s arguments =
     (if arguments = [] then (Thrown ArgumentCountError, s)
      else (Returned (JSNumber (length arguments + length (link_view s))),
            s\<lparr>link_view := rows @ link_view s\<rparr>))"
proof (cases "arguments = []")
  case True
  then show ?thesis
    using assms(1,2)
    by (simp add: ArrayUnshift_def guard_write_ok RJSValidateArgumentCountIsAtLeast_def)
next
  case False
  then have "\<not> length arguments < 1" by simp
  moreover have "ArrayUnshift_loop to_object_index 0 arguments (link_view s) =
      (None, rows @ link_view s)"
    using ArrayUnshift_loop_all [of 0 "link_view s", OF _ assms(3)] by simp
  ultimately show ?thesis
    using assms(1,2) False map_Inr_length [OF assms(3)]
    by (simp add: ArrayUnshift_def guard_write_ok RJSValidateArgumentCountIsAtLeast_def)
qed

theorem ArrayUnshift_prepends_in_order_witness:
  "ArrayUnshift host_to_object_index
     \<lparr>attached = True, in_transaction = True, link_view = [4, 5]\<rparr>
     [HostObject 7, HostObject 8, HostObject 9]
   = (Returned (JSNumber 5),
      \<lparr>attached = True, in_transaction = True, link_view = [7, 8, 9, 4, 5]\<rparr>)
   \<and> ArrayUnshift host_to_object_index
     \<lparr>attached = True, in_transaction = True, link_view = [4, 5]\<rparr> []
   = (Thrown ArgumentCountError,
      \<lparr>attached = True, in_transaction = True, link_view = [4, 5]\<rparr>)"
  using ArrayUnshift_prepends_in_order
      [of "\<lparr>attached = True, in_transaction = True, link_view = [4, 5]\<rparr>"
        host_to_object_index "[HostObject 7, HostObject 8, HostObject 9]" "[7, 8, 9]"]
    ArrayUnshift_prepends_in_order
      [of "\<lparr>attached = True, in_transaction = True, link_view = [4, 5]\<rparr>"
        host_to_object_index "[]" "[]"]
  by simp

text \<open>
  C8. On an attached list in a write transaction, \<^verbatim>\<open>RemoveLast()\<close> and
  \<^verbatim>\<open>RemoveFirst()\<close> return \<^verbatim>\<open>undefined\<close>, not an error, on the empty list and leave
  it empty; on a non-empty list they return the wrapped element at the last offset
  (at offset 0) and remove that slot and no other. So on \<open>[x, y, z]\<close>
  \<^verbatim>\<open>RemoveFirst()\<close> returns \<open>x\<close> and leaves \<open>[y, z]\<close>, on which \<^verbatim>\<open>RemoveLast()\<close>
  returns \<open>z\<close> and leaves \<open>[y]\<close>.
\<close>

theorem ArrayPop_ArrayShift_remove_one:
  assumes "attached s" "in_transaction s"
  shows "ArrayPop s ([] :: 'v list) =
           (if link_view s = [] then (Returned JSUndefined, s)
            else (Returned (RJSObject (link_view s ! (length (link_view s) - 1))),
                  s\<lparr>link_view := butlast (link_view s)\<rparr>))
       \<and> ArrayShift s ([] :: 'v list) =
           (if link_view s = [] then (Returned JSUndefined, s)
            else (Returned (RJSObject (link_view s ! 0)), s\<lparr>link_view := tl (link_view s)\<rparr>))
       \<and> ArrayShift (s\<lparr>link_view := [x, y, z]\<rparr>) ([] :: 'v list) =
           (Returned (RJSObject x), s\<lparr>link_view := [y, z]\<rparr>)
       \<and> ArrayPop (s\<lparr>link_view := [y, z]\<rparr>) ([] :: 'v list) =
           (Returned (RJSObject z), s\<lparr>link_view := [y]\<rparr>)"
proof -
  have a: "attached (s\<lparr>link_view := l\<rparr>)" "in_transaction (s\<lparr>link_view := l\<rparr>)" for l
    using assms by simp_all
  have pop: "ArrayPop s ([] :: 'v list) =
           (if link_view s = [] then (Returned JSUndefined, s)
            else (Returned (RJSObject (link_view s ! (length (link_view s) - 1))),
                  s\<lparr>link_view := butlast (link_view s)\<rparr>))"
    by (simp add: ArrayPop_nonempty [OF assms] ArrayPop_empty [OF assms] last_conv_nth)
  have shift: "ArrayShift s ([] :: 'v list) =
           (if link_view s = [] then (Returned JSUndefined, s)
            else (Returned (RJSObject (link_view s ! 0)), s\<lparr>link_view := tl (link_view s)\<rparr>))"
    by (simp add: ArrayShift_nonempty [OF assms] ArrayShift_empty [OF assms] hd_conv_nth)
  have first: "ArrayShift (s\<lparr>link_view := [x, y, z]\<rparr>) ([] :: 'v list) =
           (Returned (RJSObject x), s\<lparr>link_view := [y, z]\<rparr>)"
    by (simp add: ArrayShift_nonempty [OF a])
  have second: "ArrayPop (s\<lparr>link_view := [y, z]\<rparr>) ([] :: 'v list) =
           (Returned (RJSObject z), s\<lparr>link_view := [y]\<rparr>)"
    by (simp add: ArrayPop_nonempty [OF a])
  show ?thesis
    using pop shift first second by (intro conjI)
qed

theorem ArrayPop_ArrayShift_remove_one_witness:
  "ArrayPop \<lparr>attached = True, in_transaction = True, link_view = []\<rparr> ([] :: hostvalue list)
     = (Returned JSUndefined, \<lparr>attached = True, in_transaction = True, link_view = []\<rparr>)
   \<and> ArrayShift \<lparr>attached = True, in_transaction = True, link_view = []\<rparr>
       ([] :: hostvalue list)
     = (Returned JSUndefined, \<lparr>attached = True, in_transaction = True, link_view = []\<rparr>)
   \<and> ArrayShift \<lparr>attached = True, in_transaction = True, link_view = [7, 8, 9]\<rparr>
       ([] :: hostvalue list)
     = (Returned (RJSObject 7),
        \<lparr>attached = True, in_transaction = True, link_view = [8, 9]\<rparr>)
   \<and> ArrayPop \<lparr>attached = True, in_transaction = True, link_view = [8, 9]\<rparr>
       ([] :: hostvalue list)
     = (Returned (RJSObject 9), \<lparr>attached = True, in_transaction = True, link_view = [8]\<rparr>)"
  using ArrayPop_ArrayShift_remove_one
    [where ?'v = hostvalue,
      of "\<lparr>attached = True, in_transaction = True, link_view = []\<rparr>" 7 8 9]
  by simp

text \<open>
  C9. On an attached list in a write transaction, when the arguments before the \<open>k\<close>-th
  coerce and the \<open>k\<close>-th does not, \<^verbatim>\<open>Append\<close> and \<^verbatim>\<open>Prepend\<close> stop there: the
  values of the first \<open>k - 1\<close> arguments stay in the list (at its end, at its front),
  nothing of the later arguments is applied, and the error of the coercion is the
  error of the call.
\<close>

theorem ArrayPush_ArrayUnshift_partial_application:
  assumes "attached s" "in_transaction s"
    and "map to_object_index pre = map Inr rows"
    and "to_object_index a = Inl e"
  shows "ArrayPush to_object_index s (pre @ a # post) =
           (Thrown e, s\<lparr>link_view := link_view s @ rows\<rparr>)
       \<and> ArrayUnshift to_object_index s (pre @ a # post) =
           (Thrown e, s\<lparr>link_view := rows @ link_view s\<rparr>)"
  using assms(1,2) ArrayPush_loop_fails [OF assms(3,4)]
    ArrayUnshift_loop_fails [of 0 "link_view s", OF _ assms(3,4)]
  by (simp add: ArrayPush_def ArrayUnshift_def guard_write_ok
      RJSValidateArgumentCountIsAtLeast_def)

theorem ArrayPush_ArrayUnshift_partial_application_witness:
  "ArrayPush host_to_object_index
     \<lparr>attached = True, in_transaction = True, link_view = [4, 5]\<rparr>
     [HostObject 7, HostObject 8, HostOther, HostObject 9]
   = (Thrown CoercionError,
      \<lparr>attached = True, in_transaction = True, link_view = [4, 5, 7, 8]\<rparr>)
   \<and> ArrayUnshift host_to_object_index
     \<lparr>attached = True, in_transaction = True, link_view = [4, 5]\<rparr>
     [HostObject 7, HostObject 8, HostOther, HostObject 9]
   = (Thrown CoercionError,
      \<lparr>attached = True, in_transaction = True, link_view = [7, 8, 4, 5]\<rparr>)"
  using ArrayPush_ArrayUnshift_partial_application
    [of "\<lparr>attached = True, in_transaction = True, link_view = [4, 5]\<rparr>"
      host_to_object_index "[HostObject 7, HostObject 8]" "[7, 8]" HostOther CoercionError
      "[HostObject 9]"]
  by simp

end
